theory Spec2Isabelle
  imports Main
begin

section \<open>Values of the launcher\<close>

text \<open>
  A value thrown by JavaScript code: an \<open>Error\<close> instance with its message, or any
  other value. The \<open>catch\<close> block of \<open>launch\<close> tells the two apart with
  \<open>error instanceof Error\<close>.
\<close>

datatype js_exn = JsError string | JsOther

text \<open>
  \<open>interface LaunchOptions\<close>: every field is optional (\<open>None\<close> is
  \<open>undefined\<close>).
\<close>

record LaunchOptions =
  args :: "string list option"
  cwd :: "string option"
  terminal :: "string option"
  waitForExit :: "bool option"

text \<open>
  \<open>interface LaunchResult\<close>. Numbers are the integers the launcher produces: exit
  codes and differences of \<open>Date.now()\<close> readings.
\<close>

record LaunchResult =
  success :: bool
  exitCode :: "int option"
  duration :: "int option"
  error :: "string option"

text \<open>
  \<open>interface TUI\<close>, with the two fields the launcher reads: \<open>id?: number\<close> (optional
  in the type, and read as \<open>tui.id!\<close>) and \<open>command: string\<close>.
\<close>

record TUI =
  tid :: "nat option"
  command :: string

section \<open>The database service\<close>

text \<open>
  The argument of \<open>addLaunchHistory\<close>: \<open>Omit<LaunchHistory, 'id' | 'launched_at'>\<close>.
  \<open>tui_id\<close> is typed \<open>number\<close>, but the launcher passes \<open>tui.id!\<close>, which is
  \<open>undefined\<close> for a TUI without an id.
\<close>

record LaunchHistory =
  tui_id :: "nat option"
  exit_code :: "int option"
  duration_ms :: "int option"
  error_message :: "string option"

text \<open>
  A row of table \<open>launch_history\<close> (schema.sql); \<open>None\<close> in a nullable column is
  SQL \<open>NULL\<close>. Timestamps are the readings of the engine's clock, unformatted.
\<close>

record history_row =
  row_id :: nat
  row_tui_id :: nat
  row_launched_at :: int
  row_exit_code :: "int option"
  row_duration_ms :: "int option"
  row_error_message :: "string option"

text \<open>
  The two columns of table \<open>tuis\<close> that \<open>addLaunchHistory\<close> writes.
  \<open>launch_count\<close> holds a number: \<open>addTUI\<close> inserts \<open>tui.launch_count || 0\<close>.
\<close>

record tui_row =
  launch_count :: int
  last_launched_at :: "int option"

text \<open>
  The SQLite database behind \<open>DatabaseService\<close>: table \<open>tuis\<close> by primary key,
  table \<open>launch_history\<close> in insertion order, the \<open>AUTOINCREMENT\<close> sequence of
  \<open>launch_history\<close>, whether \<open>close()\<close> has been called, and the clock
  \<open>CURRENT_TIMESTAMP\<close> reads (its \<open>n\<close>-th reading is \<open>sql_clock n\<close>).
\<close>

record Database =
  tuis :: "nat \<Rightarrow> tui_row option"
  launch_history :: "history_row list"
  history_seq :: nat
  closed :: bool
  sql_clock :: "nat \<Rightarrow> int"
  sql_ticks :: nat

text \<open>
  \<open>x || null\<close> on an optional number and on an optional string: \<open>undefined\<close>,
  \<open>0\<close> and \<open>''\<close> are falsy.
\<close>

definition num_or_null :: "int option \<Rightarrow> int option" where
  "num_or_null v = (case v of None \<Rightarrow> None | Some n \<Rightarrow> if n = 0 then None else Some n)"

definition str_or_null :: "string option \<Rightarrow> string option" where
  "str_or_null v = (case v of None \<Rightarrow> None | Some s \<Rightarrow> if s = [] then None else Some s)"

text \<open>
  \<open>DatabaseService.addLaunchHistory\<close> (client.ts, 152-172). The \<open>INSERT\<close> throws on
  a closed database, on a \<open>NULL\<close> \<open>tui_id\<close> (\<open>NOT NULL\<close>) and on a \<open>tui_id\<close>
  with no row in \<open>tuis\<close> (\<open>FOREIGN KEY\<close>, with \<open>PRAGMA foreign_keys = ON\<close>).
  Otherwise the row is appended with the three coerced values, then the \<open>UPDATE\<close>
  increments \<open>launch_count\<close> and sets \<open>last_launched_at\<close>; the result is
  \<open>lastInsertRowid\<close>. Each statement reads \<open>CURRENT_TIMESTAMP\<close> once.
\<close>

definition addLaunchHistory :: "Database \<Rightarrow> LaunchHistory \<Rightarrow> js_exn + (nat \<times> Database)" where
  "addLaunchHistory d history =
     (if closed d then Inl (JsError ''Cannot use a closed database'')
      else case tui_id history of
        None \<Rightarrow> Inl (JsError ''NOT NULL constraint failed: launch_history.tui_id'')
      | Some t \<Rightarrow>
          (case tuis d t of
             None \<Rightarrow> Inl (JsError ''FOREIGN KEY constraint failed'')
           | Some r \<Rightarrow>
               let rid = history_seq d + 1;
                   new_row = \<lparr>row_id = rid, row_tui_id = t,
                     row_launched_at = sql_clock d (sql_ticks d),
                     row_exit_code = num_or_null (exit_code history),
                     row_duration_ms = num_or_null (duration_ms history),
                     row_error_message = str_or_null (error_message history)\<rparr>;
                   r' = r\<lparr>launch_count := launch_count r + 1,
                     last_launched_at := Some (sql_clock d (sql_ticks d + 1))\<rparr>
               in Inr (rid, d\<lparr>tuis := (tuis d)(t \<mapsto> r'),
                     launch_history := launch_history d @ [new_row],
                     history_seq := rid,
                     sql_ticks := sql_ticks d + 2\<rparr>)))"

section \<open>The host\<close>

text \<open>
  What \<open>Bun.spawn(['which', terminal])\<close> does: the probe exits with a code, or the
  call throws.
\<close>

datatype probe_result = ProbeExited int | ProbeThrows

text \<open>
  An event the spawned child emits to the listeners of \<open>launch\<close>: \<open>'exit'\<close> with
  its code (\<open>null\<close> when a signal ended the child) or \<open>'error'\<close> with the message of
  the error.
\<close>

datatype child_event = Exit "int option" | Error string

text \<open>
  What \<open>child_process.spawn\<close> does: it throws, or it returns a child that emits the
  given events in order (none at all for a child that never ends).
\<close>

datatype spawn_result = SpawnThrows js_exn | Spawned "child_event list"

text \<open>The arguments of one \<open>spawn\<close> call.\<close>

record spawn_call =
  sp_file :: string
  sp_args :: "string list"
  sp_cwd :: string
  sp_detached :: bool
  sp_stdio :: string

text \<open>
  Everything \<open>launch\<close> reads and writes: the clock of \<open>Date.now()\<close> (its \<open>n\<close>-th
  reading is \<open>date_clock n\<close>), the search path as the answer of \<open>which\<close>, the probes
  made so far, \<open>process.cwd()\<close> (which may throw), the operating system's answer to a
  spawn call, the spawn calls made so far, the database, and what \<open>console.error\<close>
  has printed.
\<close>

record World =
  date_clock :: "nat \<Rightarrow> int"
  date_ticks :: nat
  which :: "string \<Rightarrow> probe_result"
  probes :: "string list"
  process_cwd :: "js_exn + string"
  spawn_os :: "spawn_call \<Rightarrow> spawn_result"
  spawned :: "spawn_call list"
  db :: Database
  console_errors :: "js_exn list"

definition date_now :: "World \<Rightarrow> int \<times> World" where
  "date_now w = (date_clock w (date_ticks w), w\<lparr>date_ticks := date_ticks w + 1\<rparr>)"

section \<open>TUILauncher\<close>

subsection \<open>detectTerminal\<close>

definition terminals :: "string list" where
  "terminals = [''alacritty'', ''kitty'', ''wezterm'', ''gnome-terminal'', ''konsole'',
     ''xterm'', ''urxvt'', ''terminator'', ''tilix'']"

text \<open>
  The \<open>for\<close> loop of \<open>detectTerminal\<close> over the candidates left: each one is probed;
  exit code 0 returns it, any other code and a thrown probe (the empty \<open>catch\<close>) go on
  to the next candidate.
\<close>

fun detect_loop :: "string list \<Rightarrow> World \<Rightarrow> string option \<times> World" where
  "detect_loop [] w = (None, w)"
| "detect_loop (t # ts) w =
     (let w1 = w\<lparr>probes := probes w @ [t]\<rparr> in
      case which w t of
        ProbeExited c \<Rightarrow> if c = 0 then (Some t, w1) else detect_loop ts w1
      | ProbeThrows \<Rightarrow> detect_loop ts w1)"

definition detectTerminal :: "World \<Rightarrow> string option \<times> World" where
  "detectTerminal w = detect_loop terminals w"

subsection \<open>buildLaunchCommand\<close>

text \<open>\<open>Array.prototype.join(' ')\<close> on an array of strings.\<close>

fun join_sp :: "string list \<Rightarrow> string" where
  "join_sp [] = []"
| "join_sp [a] = a"
| "join_sp (a # b # bs) = a @ '' '' @ join_sp (b # bs)"

definition fullCommand :: "string \<Rightarrow> string list \<Rightarrow> string" where
  "fullCommand cmd as = (if length as > 0 then cmd @ '' '' @ join_sp as else cmd)"

definition buildLaunchCommand :: "string \<Rightarrow> string \<Rightarrow> string list \<Rightarrow> string list" where
  "buildLaunchCommand term cmd as =
     (let fc = fullCommand cmd as in
      if term = ''alacritty'' then [''alacritty'', ''-e'', ''sh'', ''-c'', fc]
      else if term = ''kitty'' then [''kitty'', ''sh'', ''-c'', fc]
      else if term = ''wezterm'' then [''wezterm'', ''start'', ''--'', ''sh'', ''-c'', fc]
      else if term = ''gnome-terminal'' then [''gnome-terminal'', ''--'', ''sh'', ''-c'', fc]
      else if term = ''konsole'' then [''konsole'', ''-e'', ''sh'', ''-c'', fc]
      else if term = ''xterm'' then [''xterm'', ''-e'', ''sh'', ''-c'', fc]
      else if term = ''urxvt'' then [''urxvt'', ''-e'', ''sh'', ''-c'', fc]
      else if term = ''terminator'' then [''terminator'', ''-x'', ''sh'', ''-c'', fc]
      else if term = ''tilix'' then [''tilix'', ''-e'', ''sh'', ''-c'', fc]
      else [''xterm'', ''-e'', ''sh'', ''-c'', fc])"

subsection \<open>recordLaunch\<close>

text \<open>
  \<open>recordLaunch\<close>: the history entry is built from the result and handed to
  \<open>addLaunchHistory\<close>; whatever that throws is caught and printed.
\<close>

definition recordLaunch :: "nat option \<Rightarrow> LaunchResult \<Rightarrow> World \<Rightarrow> World" where
  "recordLaunch tuiId result w =
     (case addLaunchHistory (db w)
             \<lparr>tui_id = tuiId, exit_code = exitCode result,
              duration_ms = duration result, error_message = error result\<rparr> of
        Inr (rid, d') \<Rightarrow> w\<lparr>db := d'\<rparr>
      | Inl e \<Rightarrow> w\<lparr>console_errors := console_errors w @ [e]\<rparr>)"

subsection \<open>launch\<close>

text \<open>
  The state of the promise \<open>launch\<close> returns, once every event of the child has been
  handled.
\<close>

datatype promise = Resolved LaunchResult | Rejected js_exn | Pending

text \<open>
  The listener of \<open>'exit'\<close>: \<open>success: code === 0\<close>,
  \<open>exitCode: code || undefined\<close>.
\<close>

definition on_exit :: "int \<Rightarrow> int option \<Rightarrow> int \<Rightarrow> LaunchResult" where
  "on_exit startTime code now =
     \<lparr>success = (code = Some 0),
      exitCode = (case code of None \<Rightarrow> None | Some c \<Rightarrow> if c = 0 then None else Some c),
      duration = Some (now - startTime),
      error = None\<rparr>"

text \<open>The listener of \<open>'error'\<close>.\<close>

definition on_error :: "int \<Rightarrow> string \<Rightarrow> int \<Rightarrow> LaunchResult" where
  "on_error startTime msg now =
     \<lparr>success = False, exitCode = None, duration = Some (now - startTime), error = Some msg\<rparr>"

text \<open>
  The events of the attached child, in order. Each runs its listener: the clock is read,
  the result is built and recorded, and \<open>resolve(result)\<close> settles the promise if it
  is still pending (a promise keeps its first resolution).
\<close>

fun handle_events ::
  "nat option \<Rightarrow> int \<Rightarrow> child_event list \<Rightarrow> promise \<Rightarrow> World \<Rightarrow> promise \<times> World" where
  "handle_events tuiId startTime [] p w = (p, w)"
| "handle_events tuiId startTime (ev # evs) p w =
     (let (now, w1) = date_now w;
          result = (case ev of Exit code \<Rightarrow> on_exit startTime code now
                             | Error msg \<Rightarrow> on_error startTime msg now);
          w2 = recordLaunch tuiId result w1
      in handle_events tuiId startTime evs (if p = Pending then Resolved result else p) w2)"

text \<open>\<open>options.terminal || (await this.detectTerminal())\<close>: an empty string is falsy.\<close>

definition resolve_terminal :: "LaunchOptions \<Rightarrow> World \<Rightarrow> string option \<times> World" where
  "resolve_terminal options w =
     (case terminal options of
        None \<Rightarrow> detectTerminal w
      | Some t \<Rightarrow> if t = [] then detectTerminal w else (Some t, w))"

text \<open>\<open>options.cwd || process.cwd()\<close>.\<close>

definition resolve_cwd :: "LaunchOptions \<Rightarrow> World \<Rightarrow> js_exn + string" where
  "resolve_cwd options w =
     (case cwd options of
        None \<Rightarrow> process_cwd w
      | Some c \<Rightarrow> if c = [] then process_cwd w else Inr c)"

definition no_terminal_message :: string where
  "no_terminal_message =
     ''No terminal emulator found. Please install alacritty, kitty, or gnome-terminal.''"

text \<open>
  What follows a successful \<open>spawn\<close> when \<open>waitForExit\<close> is falsy: \<open>proc.unref()\<close>,
  the launch is recorded with one clock reading, and the result is returned with the
  next one.
\<close>

definition launch_detached :: "TUI \<Rightarrow> int \<Rightarrow> World \<Rightarrow> promise \<times> World" where
  "launch_detached tui startTime w =
     (let (t1, w1) = date_now w;
          w2 = recordLaunch (tid tui)
                 \<lparr>success = True, exitCode = None, duration = Some (t1 - startTime),
                  error = None\<rparr> w1;
          (t2, w3) = date_now w2
      in (Resolved \<lparr>success = True, exitCode = None, duration = Some (t2 - startTime),
                    error = None\<rparr>, w3))"

text \<open>
  The body of the \<open>try\<close> block of \<open>launch\<close>; \<open>Inl\<close> is a value thrown inside it.
  The arguments of \<open>spawn\<close> are evaluated before the call, so \<open>process.cwd()\<close> may
  throw first; \<open>launchCommand[0]\<close> of an empty array is \<open>undefined\<close>, which
  \<open>spawn\<close> refuses with a \<open>TypeError\<close>. In detached mode nothing listens to the
  child, so its events are not looked at.
\<close>

definition launch_try ::
  "TUI \<Rightarrow> LaunchOptions \<Rightarrow> int \<Rightarrow> World \<Rightarrow> (js_exn + promise) \<times> World" where
  "launch_try tui options startTime w =
     (case resolve_terminal options w of
        (None, w1) \<Rightarrow>
          (Inr (Resolved \<lparr>success = False, exitCode = None, duration = None,
                          error = Some no_terminal_message\<rparr>), w1)
      | (Some term, w1) \<Rightarrow>
          (let launchCommand = buildLaunchCommand term (command tui)
                 (case args options of None \<Rightarrow> [] | Some as \<Rightarrow> as)
           in case resolve_cwd options w1 of
                Inl e \<Rightarrow> (Inl e, w1)
              | Inr dir \<Rightarrow>
                  (case launchCommand of
                     [] \<Rightarrow> (Inl (JsError ''The file argument must be of type string''), w1)
                   | file # argv \<Rightarrow>
                       (let attached = (waitForExit options = Some True);
                            call = \<lparr>sp_file = file, sp_args = argv, sp_cwd = dir,
                                    sp_detached = (\<not> attached),
                                    sp_stdio = (if attached then ''inherit'' else ''ignore'')\<rparr>;
                            w2 = w1\<lparr>spawned := spawned w1 @ [call]\<rparr>
                        in case spawn_os w1 call of
                             SpawnThrows e \<Rightarrow> (Inl e, w2)
                           | Spawned evs \<Rightarrow>
                               if \<not> attached then
                                 (case launch_detached tui startTime w2 of
                                    (p, w3) \<Rightarrow> (Inr p, w3))
                               else
                                 (case handle_events (tid tui) startTime evs Pending w2 of
                                    (p, w3) \<Rightarrow> (Inr p, w3))))))"

text \<open>
  \<open>launch\<close>: the start time is read first; a value thrown in the \<open>try\<close> block becomes
  a failed result with the duration up to the \<open>catch\<close>.
\<close>

definition launch :: "TUI \<Rightarrow> LaunchOptions \<Rightarrow> World \<Rightarrow> promise \<times> World" where
  "launch tui options w =
     (let (startTime, w1) = date_now w in
      case launch_try tui options startTime w1 of
        (Inr p, w2) \<Rightarrow> (p, w2)
      | (Inl e, w2) \<Rightarrow>
          (let (now, w3) = date_now w2 in
           (Resolved \<lparr>success = False, exitCode = None, duration = Some (now - startTime),
                      error = Some (case e of JsError m \<Rightarrow> m | JsOther \<Rightarrow> ''Unknown error'')\<rparr>,
            w3)))"

section \<open>Sample inputs\<close>

text \<open>
  A catalogued program, a registry that holds it under id 1 (launched four times so
  far), and a host given by its search path and by what spawning does on it.
\<close>

definition htop :: TUI where
  "htop = \<lparr>tid = Some 1, command = ''htop''\<rparr>"

definition registry0 :: Database where
  "registry0 =
     \<lparr>tuis = (\<lambda>k. if k = 1 then Some \<lparr>launch_count = 4, last_launched_at = None\<rparr> else None),
      launch_history = [], history_seq = 0, closed = False,
      sql_clock = (\<lambda>n. 500 + int n), sql_ticks = 0\<rparr>"

definition host :: "(string \<Rightarrow> probe_result) \<Rightarrow> (spawn_call \<Rightarrow> spawn_result) \<Rightarrow> World" where
  "host wh sp =
     \<lparr>date_clock = (\<lambda>n. 1000 + 10 * int n), date_ticks = 0, which = wh, probes = [],
      process_cwd = Inr ''/home/user'', spawn_os = sp, spawned = [], db = registry0,
      console_errors = []\<rparr>"

text \<open>\<open>launch(tui)\<close> with no options, and \<open>launch(tui, {waitForExit: true})\<close>.\<close>

definition no_options :: LaunchOptions where
  "no_options = \<lparr>args = None, cwd = None, terminal = None, waitForExit = None\<rparr>"

definition wait_options :: LaunchOptions where
  "wait_options = \<lparr>args = None, cwd = None, terminal = None, waitForExit = Some True\<rparr>"

text \<open>
  Two search paths: one where only kitty resolves, one where no candidate does. And the
  spawn call \<open>launch\<close> makes for \<open>htop\<close> under kitty from \<open>/home/user\<close>.
\<close>

definition kitty_only :: "string \<Rightarrow> probe_result" where
  "kitty_only t = (if t = ''kitty'' then ProbeExited 0 else ProbeExited 1)"

definition no_emulator :: "string \<Rightarrow> probe_result" where
  "no_emulator t = ProbeExited 1"

definition kitty_call :: "bool \<Rightarrow> spawn_call" where
  "kitty_call attached =
     \<lparr>sp_file = ''kitty'', sp_args = [''sh'', ''-c'', ''htop''], sp_cwd = ''/home/user'',
      sp_detached = (\<not> attached),
      sp_stdio = (if attached then ''inherit'' else ''ignore'')\<rparr>"

section \<open>The command builder\<close>

text \<open>
  C7. \<open>buildLaunchCommand\<close> joins the command and its arguments with single spaces
  (the command alone when there are no arguments, so nothing trails it) and wraps the
  joined string in the convention of the emulator it is given: each of the nine known
  emulators has its own argv, listed here, and in every case the joined string is the
  last element, after \<open>sh -c\<close>. For alacritty, \<open>htop\<close> and no arguments the argv is
  \<open>alacritty -e sh -c htop\<close>; with arguments \<open>--arg1\<close> and \<open>--arg2\<close> the joined
  string is \<open>htop --arg1 --arg2\<close>.
\<close>

theorem buildLaunchCommand_joins:
  "fullCommand cmd as = join_sp (cmd # as)
   \<and> fullCommand cmd [] = cmd
   \<and> buildLaunchCommand ''alacritty'' cmd as = [''alacritty'', ''-e'', ''sh'', ''-c'', fullCommand cmd as]
   \<and> buildLaunchCommand ''kitty'' cmd as = [''kitty'', ''sh'', ''-c'', fullCommand cmd as]
   \<and> buildLaunchCommand ''wezterm'' cmd as =
       [''wezterm'', ''start'', ''--'', ''sh'', ''-c'', fullCommand cmd as]
   \<and> buildLaunchCommand ''gnome-terminal'' cmd as =
       [''gnome-terminal'', ''--'', ''sh'', ''-c'', fullCommand cmd as]
   \<and> buildLaunchCommand ''konsole'' cmd as = [''konsole'', ''-e'', ''sh'', ''-c'', fullCommand cmd as]
   \<and> buildLaunchCommand ''xterm'' cmd as = [''xterm'', ''-e'', ''sh'', ''-c'', fullCommand cmd as]
   \<and> buildLaunchCommand ''urxvt'' cmd as = [''urxvt'', ''-e'', ''sh'', ''-c'', fullCommand cmd as]
   \<and> buildLaunchCommand ''terminator'' cmd as =
       [''terminator'', ''-x'', ''sh'', ''-c'', fullCommand cmd as]
   \<and> buildLaunchCommand ''tilix'' cmd as = [''tilix'', ''-e'', ''sh'', ''-c'', fullCommand cmd as]
   \<and> (\<exists>pre. buildLaunchCommand term cmd as = pre @ [''sh'', ''-c'', fullCommand cmd as])
   \<and> buildLaunchCommand ''alacritty'' ''htop'' [] = [''alacritty'', ''-e'', ''sh'', ''-c'', ''htop'']
   \<and> fullCommand ''htop'' [''--arg1'', ''--arg2''] = ''htop --arg1 --arg2''"
proof -
  have joined: "fullCommand cmd as = join_sp (cmd # as)"
    by (cases as) (simp_all add: fullCommand_def)
  have alone: "fullCommand cmd [] = cmd"
    by (simp add: fullCommand_def)
  have table:
    "buildLaunchCommand ''alacritty'' cmd as = [''alacritty'', ''-e'', ''sh'', ''-c'', fullCommand cmd as]"
    "buildLaunchCommand ''kitty'' cmd as = [''kitty'', ''sh'', ''-c'', fullCommand cmd as]"
    "buildLaunchCommand ''wezterm'' cmd as =
       [''wezterm'', ''start'', ''--'', ''sh'', ''-c'', fullCommand cmd as]"
    "buildLaunchCommand ''gnome-terminal'' cmd as =
       [''gnome-terminal'', ''--'', ''sh'', ''-c'', fullCommand cmd as]"
    "buildLaunchCommand ''konsole'' cmd as = [''konsole'', ''-e'', ''sh'', ''-c'', fullCommand cmd as]"
    "buildLaunchCommand ''xterm'' cmd as = [''xterm'', ''-e'', ''sh'', ''-c'', fullCommand cmd as]"
    "buildLaunchCommand ''urxvt'' cmd as = [''urxvt'', ''-e'', ''sh'', ''-c'', fullCommand cmd as]"
    "buildLaunchCommand ''terminator'' cmd as =
       [''terminator'', ''-x'', ''sh'', ''-c'', fullCommand cmd as]"
    "buildLaunchCommand ''tilix'' cmd as = [''tilix'', ''-e'', ''sh'', ''-c'', fullCommand cmd as]"
    by (simp_all add: buildLaunchCommand_def Let_def)
  have wrapped: "\<exists>pre. buildLaunchCommand term cmd as = pre @ [''sh'', ''-c'', fullCommand cmd as]"
    by (simp add: buildLaunchCommand_def Let_def)
  have alacritty: "buildLaunchCommand ''alacritty'' ''htop'' [] =
      [''alacritty'', ''-e'', ''sh'', ''-c'', ''htop'']"
    by (simp add: buildLaunchCommand_def fullCommand_def)
  have two_args: "fullCommand ''htop'' [''--arg1'', ''--arg2''] = ''htop --arg1 --arg2''"
    by (simp add: fullCommand_def)
  from joined alone table wrapped alacritty two_args show ?thesis by blast
qed

text \<open>
  C8. A terminal identifier that is none of the nine known emulators gets the xterm
  wrapper around the joined command.
\<close>

theorem buildLaunchCommand_fallback:
  "term \<notin> set terminals \<Longrightarrow>
   buildLaunchCommand term cmd as = [''xterm'', ''-e'', ''sh'', ''-c'', fullCommand cmd as]"
  by (simp add: buildLaunchCommand_def terminals_def)

theorem buildLaunchCommand_fallback_witness:
  "''foot'' \<notin> set terminals
   \<and> buildLaunchCommand ''foot'' ''htop'' [''-d'', ''5''] = [''xterm'', ''-e'', ''sh'', ''-c'', ''htop -d 5'']"
proof -
  have unknown: "''foot'' \<notin> set terminals"
    by (simp add: terminals_def)
  from buildLaunchCommand_fallback [OF unknown, of "''htop''" "[''-d'', ''5'']"] unknown
  show ?thesis by (simp add: fullCommand_def)
qed

section \<open>The terminal detector\<close>

lemma detect_loop_find:
  "fst (detect_loop ts w) = List.find (\<lambda>t. which w t = ProbeExited 0) ts"
  by (induction ts arbitrary: w) (auto simp: Let_def split: probe_result.splits)

lemma detect_loop_probes:
  "probes (snd (detect_loop ts w)) =
     probes w @ takeWhile (\<lambda>t. which w t \<noteq> ProbeExited 0) ts @
       (case fst (detect_loop ts w) of None \<Rightarrow> [] | Some t \<Rightarrow> [t])"
  by (induction ts arbitrary: w) (auto simp: Let_def split: probe_result.splits)

lemma detect_loop_frame: "\<exists>ps. snd (detect_loop ts w) = w\<lparr>probes := ps\<rparr>"
proof (induction ts arbitrary: w)
  case Nil
  have "w = w\<lparr>probes := probes w\<rparr>" by simp
  then show ?case by (metis detect_loop.simps(1) snd_conv)
next
  case (Cons t ts)
  obtain ps where ps:
    "snd (detect_loop ts (w\<lparr>probes := probes w @ [t]\<rparr>)) = w\<lparr>probes := probes w @ [t]\<rparr>\<lparr>probes := ps\<rparr>"
    using Cons.IH by blast
  show ?case
  proof (cases "which w t = ProbeExited 0")
    case True
    then show ?thesis by (auto simp: Let_def)
  next
    case False
    then have "detect_loop (t # ts) w = detect_loop ts (w\<lparr>probes := probes w @ [t]\<rparr>)"
      by (auto simp: Let_def split: probe_result.splits)
    with ps show ?thesis by (auto intro: exI [of _ ps])
  qed
qed

text \<open>
  C9. \<open>detectTerminal\<close> goes through the nine candidates in their fixed order and
  returns the first one whose probe exits with 0, or nothing when no probe does (a
  probe that throws counts as a miss: no exception leaves the function). It probes the
  candidates before the hit and the hit, and no candidate after it; nothing else of the
  host changes.
\<close>

theorem detectTerminal_first_resolving:
  "terminals = [''alacritty'', ''kitty'', ''wezterm'', ''gnome-terminal'', ''konsole'',
      ''xterm'', ''urxvt'', ''terminator'', ''tilix'']
   \<and> fst (detectTerminal w) = List.find (\<lambda>t. which w t = ProbeExited 0) terminals
   \<and> probes (snd (detectTerminal w)) =
       probes w @ takeWhile (\<lambda>t. which w t \<noteq> ProbeExited 0) terminals @
         (case fst (detectTerminal w) of None \<Rightarrow> [] | Some t \<Rightarrow> [t])
   \<and> snd (detectTerminal w) = w\<lparr>probes := probes (snd (detectTerminal w))\<rparr>"
proof -
  obtain ps where ps: "snd (detect_loop terminals w) = w\<lparr>probes := ps\<rparr>"
    using detect_loop_frame by blast
  then have "probes (snd (detect_loop terminals w)) = ps" by simp
  with ps have frame: "snd (detectTerminal w) = w\<lparr>probes := probes (snd (detectTerminal w))\<rparr>"
    by (simp add: detectTerminal_def)
  have order: "terminals = [''alacritty'', ''kitty'', ''wezterm'', ''gnome-terminal'',
      ''konsole'', ''xterm'', ''urxvt'', ''terminator'', ''tilix'']"
    by (simp add: terminals_def)
  have first: "fst (detectTerminal w) = List.find (\<lambda>t. which w t = ProbeExited 0) terminals"
    by (simp add: detectTerminal_def detect_loop_find)
  have probed: "probes (snd (detectTerminal w)) =
       probes w @ takeWhile (\<lambda>t. which w t \<noteq> ProbeExited 0) terminals @
         (case fst (detectTerminal w) of None \<Rightarrow> [] | Some t \<Rightarrow> [t])"
    unfolding detectTerminal_def by (rule detect_loop_probes)
  from order first probed frame show ?thesis by blast
qed

section \<open>The history store\<close>

text \<open>
  C10. \<open>addLaunchHistory\<close> stores falsy values as \<open>NULL\<close>: an entry with exit code
  0, with duration 0 or with an empty error message is handled exactly as the entry
  without that field, and the row appended holds \<open>NULL\<close> in each such column.
\<close>

theorem addLaunchHistory_falsy_null:
  "addLaunchHistory d (h\<lparr>exit_code := Some 0\<rparr>) = addLaunchHistory d (h\<lparr>exit_code := None\<rparr>)
   \<and> addLaunchHistory d (h\<lparr>duration_ms := Some 0\<rparr>) = addLaunchHistory d (h\<lparr>duration_ms := None\<rparr>)
   \<and> addLaunchHistory d (h\<lparr>error_message := Some []\<rparr>) = addLaunchHistory d (h\<lparr>error_message := None\<rparr>)
   \<and> (\<forall>rid d'. addLaunchHistory d h = Inr (rid, d') \<longrightarrow>
        (\<exists>row. launch_history d' = launch_history d @ [row]
           \<and> row_exit_code row = (if exit_code h = Some 0 then None else exit_code h)
           \<and> row_duration_ms row = (if duration_ms h = Some 0 then None else duration_ms h)
           \<and> row_error_message row =
               (if error_message h = Some [] then None else error_message h)))"
proof -
  have code: "addLaunchHistory d (h\<lparr>exit_code := Some 0\<rparr>) = addLaunchHistory d (h\<lparr>exit_code := None\<rparr>)"
    by (simp add: addLaunchHistory_def num_or_null_def Let_def split: option.splits)
  have dur: "addLaunchHistory d (h\<lparr>duration_ms := Some 0\<rparr>) = addLaunchHistory d (h\<lparr>duration_ms := None\<rparr>)"
    by (simp add: addLaunchHistory_def num_or_null_def Let_def split: option.splits)
  have msg: "addLaunchHistory d (h\<lparr>error_message := Some []\<rparr>) = addLaunchHistory d (h\<lparr>error_message := None\<rparr>)"
    by (simp add: addLaunchHistory_def str_or_null_def Let_def split: option.splits)
  have row: "\<exists>row. launch_history d' = launch_history d @ [row]
           \<and> row_exit_code row = (if exit_code h = Some 0 then None else exit_code h)
           \<and> row_duration_ms row = (if duration_ms h = Some 0 then None else duration_ms h)
           \<and> row_error_message row = (if error_message h = Some [] then None else error_message h)"
    if "addLaunchHistory d h = Inr (rid, d')" for rid d'
    using that
    by (auto simp: addLaunchHistory_def num_or_null_def str_or_null_def Let_def
        split: option.splits if_splits)
  from code dur msg row show ?thesis by blast
qed

theorem addLaunchHistory_falsy_null_witness:
  "\<exists>rid d'. addLaunchHistory registry0
       \<lparr>tui_id = Some 1, exit_code = Some 0, duration_ms = Some 0, error_message = Some []\<rparr>
       = Inr (rid, d')
     \<and> (\<exists>row. launch_history d' = launch_history registry0 @ [row]
           \<and> row_exit_code row = None \<and> row_duration_ms row = None
           \<and> row_error_message row = None)"
proof -
  let ?h = "\<lparr>tui_id = Some 1, exit_code = Some 0, duration_ms = Some 0, error_message = Some []\<rparr>"
  obtain rid d' where ok: "addLaunchHistory registry0 ?h = Inr (rid, d')"
    by (simp add: addLaunchHistory_def registry0_def Let_def)
  from addLaunchHistory_falsy_null [of registry0 ?h] ok
  have "\<exists>row. launch_history d' = launch_history registry0 @ [row]
           \<and> row_exit_code row = None \<and> row_duration_ms row = None
           \<and> row_error_message row = None"
    by simp
  with ok show ?thesis by blast
qed

section \<open>The paths of launch\<close>

text \<open>
  Resolving the terminal only adds probes to the host, and what it returns depends on
  the search path alone.
\<close>

lemma resolve_terminal_frame:
  "\<exists>ps. snd (resolve_terminal opts w) = w\<lparr>probes := ps\<rparr>"
proof -
  have "w = w\<lparr>probes := probes w\<rparr>" by simp
  then have "\<exists>ps. w = w\<lparr>probes := ps\<rparr>" by (rule exI)
  then show ?thesis
    using detect_loop_frame [of terminals w]
    by (simp add: resolve_terminal_def detectTerminal_def split: option.splits)
qed

lemma resolve_terminal_eq:
  "resolve_terminal opts w =
     (fst (resolve_terminal opts w), w\<lparr>probes := probes (snd (resolve_terminal opts w))\<rparr>)"
proof -
  obtain ps where ps: "snd (resolve_terminal opts w) = w\<lparr>probes := ps\<rparr>"
    using resolve_terminal_frame by blast
  then have "probes (snd (resolve_terminal opts w)) = ps" by simp
  with ps show ?thesis by (simp add: prod_eq_iff)
qed

lemma resolve_terminal_fst:
  "which w' = which w \<Longrightarrow> fst (resolve_terminal opts w') = fst (resolve_terminal opts w)"
  by (simp add: resolve_terminal_def detectTerminal_def detect_loop_find split: option.splits)

lemma resolve_terminal_probes:
  "which w' = which w \<Longrightarrow> probes w' = probes w \<Longrightarrow>
   probes (snd (resolve_terminal opts w')) = probes (snd (resolve_terminal opts w))"
  by (simp add: resolve_terminal_def detectTerminal_def detect_loop_probes detect_loop_find split: option.splits)

lemma buildLaunchCommand_Cons:
  "\<exists>prog argv. buildLaunchCommand term cmd as = prog # argv"
  by (simp add: buildLaunchCommand_def Let_def)

lemma launch_no_terminal:
  assumes "fst (resolve_terminal opts w) = None"
  shows "launch tui opts w =
    (Resolved \<lparr>success = False, exitCode = None, duration = None, error = Some no_terminal_message\<rparr>,
     w\<lparr>date_ticks := date_ticks w + 1, probes := probes (snd (resolve_terminal opts w))\<rparr>)"
proof -
  let ?w0 = "w\<lparr>date_ticks := date_ticks w + 1\<rparr>"
  have f: "fst (resolve_terminal opts ?w0) = None"
    using assms resolve_terminal_fst [of ?w0 w opts] by simp
  have p: "probes (snd (resolve_terminal opts ?w0)) = probes (snd (resolve_terminal opts w))"
    by (rule resolve_terminal_probes) simp_all
  have "resolve_terminal opts ?w0 = (None, ?w0\<lparr>probes := probes (snd (resolve_terminal opts w))\<rparr>)"
    using resolve_terminal_eq [of opts ?w0] f p by simp
  then show ?thesis
    by (simp add: launch_def launch_try_def date_now_def)
qed


lemma resolve_terminal_started:
  "resolve_terminal opts (w\<lparr>date_ticks := n\<rparr>) =
     (fst (resolve_terminal opts w),
      w\<lparr>date_ticks := n, probes := probes (snd (resolve_terminal opts w))\<rparr>)"
proof -
  let ?w0 = "w\<lparr>date_ticks := n\<rparr>"
  have f: "fst (resolve_terminal opts ?w0) = fst (resolve_terminal opts w)"
    by (rule resolve_terminal_fst) simp
  have p: "probes (snd (resolve_terminal opts ?w0)) = probes (snd (resolve_terminal opts w))"
    by (rule resolve_terminal_probes) simp_all
  show ?thesis
    using resolve_terminal_eq [of opts ?w0] f p by simp
qed

lemma resolve_cwd_upd:
  "resolve_cwd opts (w\<lparr>date_ticks := n\<rparr>) = resolve_cwd opts w"
  "resolve_cwd opts (w\<lparr>probes := ps\<rparr>) = resolve_cwd opts w"
  by (simp_all add: resolve_cwd_def split: option.splits)

lemma launch_cwd_throws:
  assumes "fst (resolve_terminal opts w) = Some term"
    and "resolve_cwd opts w = Inl e"
  shows "launch tui opts w =
    (Resolved \<lparr>success = False, exitCode = None,
       duration = Some (date_clock w (date_ticks w + 1) - date_clock w (date_ticks w)),
       error = Some (case e of JsError m \<Rightarrow> m | JsOther \<Rightarrow> ''Unknown error'')\<rparr>,
     w\<lparr>date_ticks := date_ticks w + 2, probes := probes (snd (resolve_terminal opts w))\<rparr>)"
proof -
  obtain prog argv where b: "buildLaunchCommand term (command tui)
      (case args opts of None \<Rightarrow> [] | Some as \<Rightarrow> as) = prog # argv"
    using buildLaunchCommand_Cons by blast
  show ?thesis
    by (simp add: launch_def launch_try_def date_now_def resolve_terminal_started assms(1,2) b resolve_cwd_upd)
qed

lemma launch_spawn_throws:
  assumes "fst (resolve_terminal opts w) = Some term"
    and "buildLaunchCommand term (command tui)
           (case args opts of None \<Rightarrow> [] | Some as \<Rightarrow> as) = prog # argv"
    and "resolve_cwd opts w = Inr dir"
    and "call = \<lparr>sp_file = prog, sp_args = argv, sp_cwd = dir,
                 sp_detached = (waitForExit opts \<noteq> Some True),
                 sp_stdio = (if waitForExit opts = Some True then ''inherit'' else ''ignore'')\<rparr>"
    and "spawn_os w call = SpawnThrows e"
  shows "launch tui opts w =
    (Resolved \<lparr>success = False, exitCode = None,
       duration = Some (date_clock w (date_ticks w + 1) - date_clock w (date_ticks w)),
       error = Some (case e of JsError m \<Rightarrow> m | JsOther \<Rightarrow> ''Unknown error'')\<rparr>,
     w\<lparr>date_ticks := date_ticks w + 2, probes := probes (snd (resolve_terminal opts w)),
       spawned := spawned w @ [call]\<rparr>)"
proof -
  show ?thesis
    using assms(5) unfolding assms(4)
    by (simp add: launch_def launch_try_def date_now_def resolve_terminal_started assms(1,2,3) resolve_cwd_upd Let_def)
qed

lemma launch_detached_path:
  assumes "fst (resolve_terminal opts w) = Some term"
    and "buildLaunchCommand term (command tui)
           (case args opts of None \<Rightarrow> [] | Some as \<Rightarrow> as) = prog # argv"
    and "resolve_cwd opts w = Inr dir"
    and "call = \<lparr>sp_file = prog, sp_args = argv, sp_cwd = dir,
                 sp_detached = True, sp_stdio = ''ignore''\<rparr>"
    and "spawn_os w call = Spawned evs"
    and "waitForExit opts \<noteq> Some True"
  shows "launch tui opts w =
    (Resolved \<lparr>success = True, exitCode = None,
       duration = Some (date_clock w (date_ticks w + 2) - date_clock w (date_ticks w)),
       error = None\<rparr>,
     (recordLaunch (tid tui)
        \<lparr>success = True, exitCode = None,
         duration = Some (date_clock w (date_ticks w + 1) - date_clock w (date_ticks w)),
         error = None\<rparr>
        (w\<lparr>date_ticks := date_ticks w + 2, probes := probes (snd (resolve_terminal opts w)),
           spawned := spawned w @ [call]\<rparr>))
      \<lparr>date_ticks := date_ticks w + 3\<rparr>)"
proof -
  show ?thesis
    using assms(5,6) unfolding assms(4)
    by (simp add: launch_def launch_try_def launch_detached_def date_now_def
        resolve_terminal_started assms(1,2,3) resolve_cwd_upd Let_def recordLaunch_def split: sum.splits prod.splits)
qed

lemma launch_attached_path:
  assumes "fst (resolve_terminal opts w) = Some term"
    and "buildLaunchCommand term (command tui)
           (case args opts of None \<Rightarrow> [] | Some as \<Rightarrow> as) = prog # argv"
    and "resolve_cwd opts w = Inr dir"
    and "call = \<lparr>sp_file = prog, sp_args = argv, sp_cwd = dir,
                 sp_detached = False, sp_stdio = ''inherit''\<rparr>"
    and "spawn_os w call = Spawned evs"
    and "waitForExit opts = Some True"
  shows "launch tui opts w =
    handle_events (tid tui) (date_clock w (date_ticks w)) evs Pending
      (w\<lparr>date_ticks := date_ticks w + 1, probes := probes (snd (resolve_terminal opts w)),
         spawned := spawned w @ [call]\<rparr>)"
proof -
  show ?thesis
    using assms(5,6) unfolding assms(4)
    by (simp add: launch_def launch_try_def date_now_def
        resolve_terminal_started assms(1,2,3) resolve_cwd_upd Let_def split: prod.splits)
qed

text \<open>
  \<open>recordLaunch\<close> touches the database and the console only; a store that throws
  leaves the database as it was.
\<close>

lemma recordLaunch_host:
  "date_clock (recordLaunch i res w) = date_clock w"
  "date_ticks (recordLaunch i res w) = date_ticks w"
  "spawned (recordLaunch i res w) = spawned w"
  "probes (recordLaunch i res w) = probes w"
  by (simp_all add: recordLaunch_def split: sum.splits prod.splits)


lemma recordLaunch_stored:
  assumes "\<not> closed (db w)" and "tuis (db w) i = Some r"
  shows "\<exists>row. launch_history (db (recordLaunch (Some i) res w)) = launch_history (db w) @ [row]
      \<and> row_tui_id row = i
      \<and> tuis (db (recordLaunch (Some i) res w)) =
          (tuis (db w))(i \<mapsto> r\<lparr>launch_count := launch_count r + 1,
             last_launched_at := Some (sql_clock (db w) (sql_ticks (db w) + 1))\<rparr>)"
  using assms by (simp add: recordLaunch_def addLaunchHistory_def Let_def)

lemma handle_events_settled:
  "p \<noteq> Pending \<Longrightarrow> fst (handle_events i s evs p w) = p"
  by (induction evs arbitrary: w) (simp_all add: Let_def date_now_def)

lemma handle_events_first:
  "fst (handle_events i s (ev # evs) Pending w) =
     Resolved (case ev of Exit code \<Rightarrow> on_exit s code (date_clock w (date_ticks w))
                        | Error msg \<Rightarrow> on_error s msg (date_clock w (date_ticks w)))"
  by (simp add: Let_def date_now_def handle_events_settled)

lemma handle_events_spawned:
  "spawned (snd (handle_events i s evs p w)) = spawned w"
  by (induction evs arbitrary: p w) (simp_all add: Let_def date_now_def recordLaunch_host)

text \<open>
  Every call of \<open>launch\<close> takes one of five paths: no terminal, \<open>process.cwd()\<close>
  throws, \<open>spawn\<close> throws, the detached return, or the attached wait.
\<close>

lemma resolve_cwd_cong:
  "process_cwd w' = process_cwd w \<Longrightarrow> resolve_cwd opts w' = resolve_cwd opts w"
  by (simp add: resolve_cwd_def split: option.splits)

lemma launch_paths:
  obtains
    (no_terminal) "fst (resolve_terminal opts w) = None"
  | (cwd_throws) tm e where
      "fst (resolve_terminal opts w) = Some tm" "resolve_cwd opts w = Inl e"
  | (spawn_throws) tm prog argv dir e where
      "fst (resolve_terminal opts w) = Some tm"
      "buildLaunchCommand tm (command tui)
         (case args opts of None \<Rightarrow> [] | Some as \<Rightarrow> as) = prog # argv"
      "resolve_cwd opts w = Inr dir"
      "spawn_os w \<lparr>sp_file = prog, sp_args = argv, sp_cwd = dir,
         sp_detached = (waitForExit opts \<noteq> Some True),
         sp_stdio = (if waitForExit opts = Some True then ''inherit'' else ''ignore'')\<rparr>
       = SpawnThrows e"
  | (detached) tm prog argv dir evs where
      "fst (resolve_terminal opts w) = Some tm"
      "buildLaunchCommand tm (command tui)
         (case args opts of None \<Rightarrow> [] | Some as \<Rightarrow> as) = prog # argv"
      "resolve_cwd opts w = Inr dir"
      "spawn_os w \<lparr>sp_file = prog, sp_args = argv, sp_cwd = dir,
         sp_detached = True, sp_stdio = ''ignore''\<rparr> = Spawned evs"
      "waitForExit opts \<noteq> Some True"
  | (attached) tm prog argv dir evs where
      "fst (resolve_terminal opts w) = Some tm"
      "buildLaunchCommand tm (command tui)
         (case args opts of None \<Rightarrow> [] | Some as \<Rightarrow> as) = prog # argv"
      "resolve_cwd opts w = Inr dir"
      "spawn_os w \<lparr>sp_file = prog, sp_args = argv, sp_cwd = dir,
         sp_detached = False, sp_stdio = ''inherit''\<rparr> = Spawned evs"
      "waitForExit opts = Some True"
proof (cases "fst (resolve_terminal opts w)")
  case None
  then show ?thesis by (rule no_terminal)
next
  case (Some tm)
  obtain prog argv where b: "buildLaunchCommand tm (command tui)
      (case args opts of None \<Rightarrow> [] | Some as \<Rightarrow> as) = prog # argv"
    using buildLaunchCommand_Cons by blast
  show ?thesis
  proof (cases "resolve_cwd opts w")
    case (Inl e)
    with Some show ?thesis by (rule cwd_throws)
  next
    case (Inr dir)
    let ?call = "\<lparr>sp_file = prog, sp_args = argv, sp_cwd = dir,
         sp_detached = (waitForExit opts \<noteq> Some True),
         sp_stdio = (if waitForExit opts = Some True then ''inherit'' else ''ignore'')\<rparr>"
    show ?thesis
    proof (cases "spawn_os w ?call")
      case (SpawnThrows e)
      with Some b Inr show ?thesis by (rule spawn_throws)
    next
      case (Spawned evs)
      show ?thesis
      proof (cases "waitForExit opts = Some True")
        case True
        with Spawned have "spawn_os w \<lparr>sp_file = prog, sp_args = argv, sp_cwd = dir,
           sp_detached = False, sp_stdio = ''inherit''\<rparr> = Spawned evs" by simp
        with Some b Inr show ?thesis using True by (rule attached)
      next
        case False
        with Spawned have "spawn_os w \<lparr>sp_file = prog, sp_args = argv, sp_cwd = dir,
           sp_detached = True, sp_stdio = ''ignore''\<rparr> = Spawned evs" by simp
        with Some b Inr show ?thesis using False by (rule detached)
      qed
    qed
  qed
qed

lemma launch_spawn_log:
  assumes "spawned (snd (launch tui opts w)) = spawned w @ [call]"
  shows "\<exists>tm prog argv dir.
      fst (resolve_terminal opts w) = Some tm
    \<and> buildLaunchCommand tm (command tui)
         (case args opts of None \<Rightarrow> [] | Some as \<Rightarrow> as) = prog # argv
    \<and> resolve_cwd opts w = Inr dir
    \<and> call = \<lparr>sp_file = prog, sp_args = argv, sp_cwd = dir,
         sp_detached = (waitForExit opts \<noteq> Some True),
         sp_stdio = (if waitForExit opts = Some True then ''inherit'' else ''ignore'')\<rparr>"
proof (rule launch_paths [where opts = opts and w = w and tui = tui])
  assume "fst (resolve_terminal opts w) = None"
  from launch_no_terminal [OF this, of tui] assms show ?thesis by simp
next
  fix tm e
  assume "fst (resolve_terminal opts w) = Some tm" "resolve_cwd opts w = Inl e"
  from launch_cwd_throws [OF this, of tui] assms show ?thesis by simp
next
  fix tm prog argv dir e
  assume h: "fst (resolve_terminal opts w) = Some tm"
      "buildLaunchCommand tm (command tui)
         (case args opts of None \<Rightarrow> [] | Some as \<Rightarrow> as) = prog # argv"
      "resolve_cwd opts w = Inr dir"
    and s: "spawn_os w \<lparr>sp_file = prog, sp_args = argv, sp_cwd = dir,
         sp_detached = (waitForExit opts \<noteq> Some True),
         sp_stdio = (if waitForExit opts = Some True then ''inherit'' else ''ignore'')\<rparr>
       = SpawnThrows e"
  from launch_spawn_throws [OF h refl s] assms h show ?thesis by simp
next
  fix tm prog argv dir evs
  assume h: "fst (resolve_terminal opts w) = Some tm"
      "buildLaunchCommand tm (command tui)
         (case args opts of None \<Rightarrow> [] | Some as \<Rightarrow> as) = prog # argv"
      "resolve_cwd opts w = Inr dir"
    and s: "spawn_os w \<lparr>sp_file = prog, sp_args = argv, sp_cwd = dir,
         sp_detached = True, sp_stdio = ''ignore''\<rparr> = Spawned evs"
    and d: "waitForExit opts \<noteq> Some True"
  from launch_detached_path [OF h refl s d] assms h d show ?thesis
    by (simp add: recordLaunch_host)
next
  fix tm prog argv dir evs
  assume h: "fst (resolve_terminal opts w) = Some tm"
      "buildLaunchCommand tm (command tui)
         (case args opts of None \<Rightarrow> [] | Some as \<Rightarrow> as) = prog # argv"
      "resolve_cwd opts w = Inr dir"
    and s: "spawn_os w \<lparr>sp_file = prog, sp_args = argv, sp_cwd = dir,
         sp_detached = False, sp_stdio = ''inherit''\<rparr> = Spawned evs"
    and a: "waitForExit opts = Some True"
  from launch_attached_path [OF h refl s a] assms h a show ?thesis
    by (simp add: handle_events_spawned)
qed



lemma launch_outcome:
  "fst (launch tui opts w) =
    (case fst (resolve_terminal opts w) of
       None \<Rightarrow> Resolved \<lparr>success = False, exitCode = None, duration = None,
                          error = Some no_terminal_message\<rparr>
     | Some tm \<Rightarrow>
        (let argv = buildLaunchCommand tm (command tui)
                      (case args opts of None \<Rightarrow> [] | Some as \<Rightarrow> as);
             s = date_clock w (date_ticks w);
             thrown = (\<lambda>e. Resolved \<lparr>success = False, exitCode = None,
                         duration = Some (date_clock w (date_ticks w + 1) - s),
                         error = Some (case e of JsError m \<Rightarrow> m | JsOther \<Rightarrow> ''Unknown error'')\<rparr>)
         in case resolve_cwd opts w of
              Inl e \<Rightarrow> thrown e
            | Inr dir \<Rightarrow>
               (case spawn_os w \<lparr>sp_file = hd argv, sp_args = tl argv, sp_cwd = dir,
                        sp_detached = (waitForExit opts \<noteq> Some True),
                        sp_stdio = (if waitForExit opts = Some True then ''inherit''
                                    else ''ignore'')\<rparr> of
                  SpawnThrows e \<Rightarrow> thrown e
                | Spawned evs \<Rightarrow>
                    if waitForExit opts \<noteq> Some True
                    then Resolved \<lparr>success = True, exitCode = None,
                           duration = Some (date_clock w (date_ticks w + 2) - s), error = None\<rparr>
                    else (case evs of
                            [] \<Rightarrow> Pending
                          | Exit code # _ \<Rightarrow>
                              Resolved (on_exit s code (date_clock w (date_ticks w + 1)))
                          | Error msg # _ \<Rightarrow>
                              Resolved (on_error s msg (date_clock w (date_ticks w + 1)))))))"
proof (rule launch_paths [where opts = opts and w = w and tui = tui])
  assume h: "fst (resolve_terminal opts w) = None"
  show ?thesis unfolding launch_no_terminal [OF h] by (simp add: h)
next
  fix tm e
  assume h: "fst (resolve_terminal opts w) = Some tm" "resolve_cwd opts w = Inl e"
  show ?thesis unfolding launch_cwd_throws [OF h] by (simp add: h Let_def)
next
  fix tm prog argv dir e
  assume h: "fst (resolve_terminal opts w) = Some tm"
      "buildLaunchCommand tm (command tui)
         (case args opts of None \<Rightarrow> [] | Some as \<Rightarrow> as) = prog # argv"
      "resolve_cwd opts w = Inr dir"
    and s: "spawn_os w \<lparr>sp_file = prog, sp_args = argv, sp_cwd = dir,
         sp_detached = (waitForExit opts \<noteq> Some True),
         sp_stdio = (if waitForExit opts = Some True then ''inherit'' else ''ignore'')\<rparr>
       = SpawnThrows e"
  show ?thesis unfolding launch_spawn_throws [OF h refl s] using s by (simp add: h Let_def)
next
  fix tm prog argv dir evs
  assume h: "fst (resolve_terminal opts w) = Some tm"
      "buildLaunchCommand tm (command tui)
         (case args opts of None \<Rightarrow> [] | Some as \<Rightarrow> as) = prog # argv"
      "resolve_cwd opts w = Inr dir"
    and s: "spawn_os w \<lparr>sp_file = prog, sp_args = argv, sp_cwd = dir,
         sp_detached = True, sp_stdio = ''ignore''\<rparr> = Spawned evs"
    and d: "waitForExit opts \<noteq> Some True"
  show ?thesis unfolding launch_detached_path [OF h refl s d] using s d by (simp add: h Let_def)
next
  fix tm prog argv dir evs
  assume h: "fst (resolve_terminal opts w) = Some tm"
      "buildLaunchCommand tm (command tui)
         (case args opts of None \<Rightarrow> [] | Some as \<Rightarrow> as) = prog # argv"
      "resolve_cwd opts w = Inr dir"
    and s: "spawn_os w \<lparr>sp_file = prog, sp_args = argv, sp_cwd = dir,
         sp_detached = False, sp_stdio = ''inherit''\<rparr> = Spawned evs"
    and a: "waitForExit opts = Some True"
  show ?thesis
  proof (cases evs)
    case Nil
    show ?thesis unfolding launch_attached_path [OF h refl s a] using s a
      by (simp add: h Let_def Nil)
  next
    case (Cons ev evs')
    show ?thesis unfolding launch_attached_path [OF h refl s a] Cons handle_events_first
      using s a by (simp add: h Let_def Cons split: child_event.splits)
  qed
qed





text \<open>The sample host, field by field, and the path the sample launches take on it.\<close>

lemma host_fields:
  "date_clock (host wh sp) n = 1000 + 10 * int n"
  "date_ticks (host wh sp) = 0"
  "which (host wh sp) = wh"
  "spawn_os (host wh sp) = sp"
  "spawned (host wh sp) = []"
  "db (host wh sp) = registry0"
  "console_errors (host wh sp) = []"
  by (simp_all add: host_def)

lemma sample_terminal:
  "fst (resolve_terminal no_options (host kitty_only sp)) = Some ''kitty''"
  "fst (resolve_terminal wait_options (host kitty_only sp)) = Some ''kitty''"
  "fst (resolve_terminal no_options (host no_emulator sp)) = None"
  by (simp_all add: resolve_terminal_def no_options_def wait_options_def detectTerminal_def
      detect_loop_find terminals_def host_def kitty_only_def no_emulator_def)

lemma sample_cwd:
  "resolve_cwd no_options (host wh sp) = Inr ''/home/user''"
  "resolve_cwd wait_options (host wh sp) = Inr ''/home/user''"
  by (simp_all add: resolve_cwd_def no_options_def wait_options_def host_def)

lemma sample_argv:
  "command tui = ''htop'' \<Longrightarrow>
   buildLaunchCommand ''kitty'' (command tui)
     (case args no_options of None \<Rightarrow> [] | Some as \<Rightarrow> as) = ''kitty'' # [''sh'', ''-c'', ''htop'']"
  "command tui = ''htop'' \<Longrightarrow>
   buildLaunchCommand ''kitty'' (command tui)
     (case args wait_options of None \<Rightarrow> [] | Some as \<Rightarrow> as) = ''kitty'' # [''sh'', ''-c'', ''htop'']"
  by (simp_all add: buildLaunchCommand_def fullCommand_def no_options_def wait_options_def)

lemma sample_detached:
  assumes "command tui = ''htop''" and "sp (kitty_call False) = Spawned evs"
  shows "launch tui no_options (host kitty_only sp) =
    (Resolved \<lparr>success = True, exitCode = None, duration = Some 20, error = None\<rparr>,
     (recordLaunch (tid tui)
        \<lparr>success = True, exitCode = None, duration = Some 10, error = None\<rparr>
        ((host kitty_only sp)\<lparr>date_ticks := 2,
           probes := probes (snd (resolve_terminal no_options (host kitty_only sp))),
           spawned := [kitty_call False]\<rparr>))
      \<lparr>date_ticks := 3\<rparr>)"
proof -
  have call: "kitty_call False = \<lparr>sp_file = ''kitty'', sp_args = [''sh'', ''-c'', ''htop''],
      sp_cwd = ''/home/user'', sp_detached = True, sp_stdio = ''ignore''\<rparr>"
    by (simp add: kitty_call_def)
  have s: "spawn_os (host kitty_only sp) (kitty_call False) = Spawned evs"
    using assms(2) by (simp add: host_def)
  have d: "waitForExit no_options \<noteq> Some True"
    by (simp add: no_options_def)
  show ?thesis
    unfolding launch_detached_path
      [OF sample_terminal(1) sample_argv(1) [OF assms(1)] sample_cwd(1) call s d]
    by (simp add: host_fields call numeral_2_eq_2 numeral_3_eq_3)
qed


section \<open>Launching without a terminal\<close>

text \<open>
  C5. When \<open>options.terminal\<close> is not supplied (absent or empty) and no candidate of
  the detector resolves, \<open>launch\<close> returns a failed outcome with a non-empty error
  string at once: no spawn call is made, the nine probes are the only thing that
  happened on the host, and the clock is not read again after the start time.
\<close>

theorem launch_without_terminal:
  assumes "terminal opts = None \<or> terminal opts = Some []"
    and "\<forall>t \<in> set terminals. which w t \<noteq> ProbeExited 0"
  shows "fst (launch tui opts w) =
      Resolved \<lparr>success = False, exitCode = None, duration = None,
                error = Some no_terminal_message\<rparr>
    \<and> no_terminal_message \<noteq> []
    \<and> spawned (snd (launch tui opts w)) = spawned w
    \<and> probes (snd (launch tui opts w)) = probes w @ terminals
    \<and> date_ticks (snd (launch tui opts w)) = date_ticks w + 1"
proof -
  have miss: "List.find (\<lambda>t. which w t = ProbeExited 0) terminals = None"
    using assms(2) by (simp add: find_None_iff)
  have all: "takeWhile (\<lambda>t. which w t \<noteq> ProbeExited 0) terminals = terminals"
    using assms(2) by (simp add: takeWhile_eq_all_conv)
  have res: "resolve_terminal opts w = detectTerminal w"
    using assms(1) by (auto simp: resolve_terminal_def)
  have none: "fst (resolve_terminal opts w) = None"
    by (simp add: res detectTerminal_def detect_loop_find miss)
  have probed: "probes (snd (resolve_terminal opts w)) = probes w @ terminals"
    using none by (simp add: res detectTerminal_def detect_loop_probes all)
  have msg: "no_terminal_message \<noteq> []"
    by (simp add: no_terminal_message_def)
  from launch_no_terminal [OF none, of tui] probed msg show ?thesis by simp
qed

theorem launch_without_terminal_witness:
  "(terminal no_options = None \<or> terminal no_options = Some [])
   \<and> fst (launch htop no_options (host no_emulator (\<lambda>c. Spawned []))) =
      Resolved \<lparr>success = False, exitCode = None, duration = None,
        error = Some ''No terminal emulator found. Please install alacritty, kitty, or gnome-terminal.''\<rparr>
   \<and> spawned (snd (launch htop no_options (host no_emulator (\<lambda>c. Spawned [])))) = []
   \<and> probes (snd (launch htop no_options (host no_emulator (\<lambda>c. Spawned [])))) = terminals"
proof -
  let ?w = "host no_emulator (\<lambda>c. Spawned [])"
  have absent: "terminal no_options = None \<or> terminal no_options = Some []"
    by (simp add: no_options_def)
  have bare: "\<forall>t \<in> set terminals. which ?w t \<noteq> ProbeExited 0"
    by (simp add: host_fields no_emulator_def)
  from launch_without_terminal [OF absent bare, of htop] absent
  show ?thesis by (simp add: host_def no_terminal_message_def)
qed

text \<open>
  C3. On a host with no terminal emulator, \<open>launch\<close> with no options resolves to the
  outcome below: it has the error string, and its \<open>duration\<close> is absent. The
  \<open>return\<close> of the no-terminal branch leaves the field out, while the \<open>catch\<close>
  block and the three paths after \<open>spawn\<close> all fill it from \<open>startTime\<close>.
\<close>

theorem launch_no_terminal_lacks_duration:
  "fst (launch htop no_options (host no_emulator (\<lambda>c. Spawned [Exit (Some 0)]))) =
     Resolved \<lparr>success = False, exitCode = None, duration = None,
       error = Some ''No terminal emulator found. Please install alacritty, kitty, or gnome-terminal.''\<rparr>"
  by (simp add: launch_outcome sample_terminal no_terminal_message_def)

section \<open>Attached launches\<close>

text \<open>
  C2. An attached launch whose child exits with code 0 resolves with \<open>success\<close> true
  and \<open>exitCode\<close> absent: \<open>code || undefined\<close> drops the falsy 0. A child that
  exits with code 1 resolves with \<open>success\<close> false, \<open>exitCode\<close> 1 and no error
  string.
\<close>

theorem launch_exit_zero_drops_code:
  "fst (launch htop wait_options (host kitty_only (\<lambda>c. Spawned [Exit (Some 0)]))) =
     Resolved \<lparr>success = True, exitCode = None, duration = Some 10, error = None\<rparr>
   \<and> fst (launch htop wait_options (host kitty_only (\<lambda>c. Spawned [Exit (Some 1)]))) =
     Resolved \<lparr>success = False, exitCode = Some 1, duration = Some 10, error = None\<rparr>"
  by (simp add: launch_outcome sample_terminal sample_cwd on_exit_def Let_def)
    (simp add: host_def wait_options_def on_exit_def)

section \<open>Detached launches\<close>

text \<open>
  C6. A detached launch (\<open>waitForExit\<close> absent or false) that made its spawn call
  and got a child back resolves with \<open>success\<close> true and \<open>exitCode\<close> absent. Its
  duration is the clock reading taken right after the spawn was recorded minus the
  reading at the start of the call, and the call reads the clock three times in all. The
  outcome is the same whatever events the child emits afterwards.
\<close>

theorem launch_detached_resolves:
  assumes "waitForExit opts \<noteq> Some True"
    and "spawned (snd (launch tui opts w)) = spawned w @ [call]"
    and "spawn_os w call = Spawned evs"
  shows "fst (launch tui opts w) =
      Resolved \<lparr>success = True, exitCode = None,
        duration = Some (date_clock w (date_ticks w + 2) - date_clock w (date_ticks w)),
        error = None\<rparr>
    \<and> date_ticks (snd (launch tui opts w)) = date_ticks w + 3
    \<and> fst (launch tui opts
          (w\<lparr>spawn_os := \<lambda>c. case spawn_os w c of
                 SpawnThrows e \<Rightarrow> SpawnThrows e | Spawned _ \<Rightarrow> Spawned evs'\<rparr>))
        = fst (launch tui opts w)"
proof -
  let ?w' = "w\<lparr>spawn_os := \<lambda>c. case spawn_os w c of
                 SpawnThrows e \<Rightarrow> SpawnThrows e | Spawned _ \<Rightarrow> Spawned evs'\<rparr>"
  obtain tm prog argv dir where
    h: "fst (resolve_terminal opts w) = Some tm"
       "buildLaunchCommand tm (command tui)
          (case args opts of None \<Rightarrow> [] | Some as \<Rightarrow> as) = prog # argv"
       "resolve_cwd opts w = Inr dir"
    and call: "call = \<lparr>sp_file = prog, sp_args = argv, sp_cwd = dir,
         sp_detached = (waitForExit opts \<noteq> Some True),
         sp_stdio = (if waitForExit opts = Some True then ''inherit'' else ''ignore'')\<rparr>"
    using launch_spawn_log [OF assms(2)] by blast
  from call assms(1) have call': "call = \<lparr>sp_file = prog, sp_args = argv, sp_cwd = dir,
         sp_detached = True, sp_stdio = ''ignore''\<rparr>" by simp
  have h': "fst (resolve_terminal opts ?w') = Some tm"
       "buildLaunchCommand tm (command tui)
          (case args opts of None \<Rightarrow> [] | Some as \<Rightarrow> as) = prog # argv"
       "resolve_cwd opts ?w' = Inr dir"
    using h resolve_terminal_fst [of ?w' w opts] resolve_cwd_cong [of ?w' w opts] by simp_all
  have s': "spawn_os ?w' call = Spawned evs'"
    using assms(3) by simp
  show ?thesis
    unfolding launch_detached_path [OF h call' assms(3) assms(1)]
      launch_detached_path [OF h' call' s' assms(1)]
    by simp
qed

theorem launch_detached_resolves_witness:
  "waitForExit no_options \<noteq> Some True
   \<and> fst (launch htop no_options (host kitty_only (\<lambda>c. Spawned [Exit (Some 1)]))) =
       Resolved \<lparr>success = True, exitCode = None, duration = Some 20, error = None\<rparr>
   \<and> fst (launch htop no_options (host kitty_only (\<lambda>c. Spawned [Error ''gone'']))) =
       Resolved \<lparr>success = True, exitCode = None, duration = Some 20, error = None\<rparr>"
proof -
  let ?w = "host kitty_only (\<lambda>c. Spawned [Exit (Some 1)])"
  have cmd: "command htop = ''htop''" by (simp add: htop_def)
  have mode: "waitForExit no_options \<noteq> Some True" by (simp add: no_options_def)
  have log: "spawned (snd (launch htop no_options ?w)) = spawned ?w @ [kitty_call False]"
    unfolding sample_detached [OF cmd refl] by (simp add: recordLaunch_host host_fields)
  have os: "spawn_os ?w (kitty_call False) = Spawned [Exit (Some 1)]"
    by (simp add: host_fields)
  have later: "?w\<lparr>spawn_os := \<lambda>c. case spawn_os ?w c of
       SpawnThrows e \<Rightarrow> SpawnThrows e | Spawned _ \<Rightarrow> Spawned [Error ''gone'']\<rparr>
     = host kitty_only (\<lambda>c. Spawned [Error ''gone''])"
    by (simp add: host_def)
  from launch_detached_resolves [OF mode log os, of "[Error ''gone'']"] mode
  show ?thesis unfolding later by (simp add: host_def)
qed

section \<open>Recording a launch\<close>

text \<open>
  C1. Every call of \<open>launch\<close> should append one history row and increment the
  target's counter, whichever path resolves it. Two paths do not: when no terminal is
  found, and when \<open>spawn\<close> throws, \<open>launch\<close> returns its failed outcome and the
  database is what it was (no row, \<open>launch_count\<close> still 4). Neither \<open>return\<close>
  calls \<open>recordLaunch\<close>. The sibling failure path does: the \<open>'error'\<close> listener of
  an attached launch records the failed launch, one row with the error message and the
  counter at 5.
\<close>

theorem launch_failure_paths_unrecorded:
  "fst (launch htop no_options (host no_emulator (\<lambda>c. Spawned []))) =
     Resolved \<lparr>success = False, exitCode = None, duration = None,
       error = Some no_terminal_message\<rparr>
   \<and> db (snd (launch htop no_options (host no_emulator (\<lambda>c. Spawned [])))) = registry0
   \<and> fst (launch htop no_options (host kitty_only (\<lambda>c. SpawnThrows (JsError ''spawn EACCES'')))) =
     Resolved \<lparr>success = False, exitCode = None, duration = Some 10,
       error = Some ''spawn EACCES''\<rparr>
   \<and> db (snd (launch htop no_options
          (host kitty_only (\<lambda>c. SpawnThrows (JsError ''spawn EACCES''))))) = registry0
   \<and> launch_history registry0 = []
   \<and> tuis registry0 1 = Some \<lparr>launch_count = 4, last_launched_at = None\<rparr>
   \<and> launch_history (db (snd (launch htop wait_options
          (host kitty_only (\<lambda>c. Spawned [Error ''spawn kitty ENOENT'']))))) =
       [\<lparr>row_id = 1, row_tui_id = 1, row_launched_at = 500, row_exit_code = None,
         row_duration_ms = Some 10, row_error_message = Some ''spawn kitty ENOENT''\<rparr>]
   \<and> tuis (db (snd (launch htop wait_options
          (host kitty_only (\<lambda>c. Spawned [Error ''spawn kitty ENOENT'']))))) 1 =
       Some \<lparr>launch_count = 5, last_launched_at = Some 501\<rparr>"
proof -
  have cmd: "command htop = ''htop''" by (simp add: htop_def)
  have none: "launch htop no_options (host no_emulator (\<lambda>c. Spawned [])) =
      (Resolved \<lparr>success = False, exitCode = None, duration = None,
         error = Some no_terminal_message\<rparr>,
       (host no_emulator (\<lambda>c. Spawned []))
         \<lparr>date_ticks := date_ticks (host no_emulator (\<lambda>c. Spawned [])) + 1,
          probes := probes (snd (resolve_terminal no_options (host no_emulator (\<lambda>c. Spawned []))))\<rparr>)"
    by (rule launch_no_terminal [OF sample_terminal(3)])
  let ?denied = "host kitty_only (\<lambda>c. SpawnThrows (JsError ''spawn EACCES''))"
  have thrown: "launch htop no_options ?denied =
      (Resolved \<lparr>success = False, exitCode = None,
         duration = Some (date_clock ?denied (date_ticks ?denied + 1)
                          - date_clock ?denied (date_ticks ?denied)),
         error = Some (case JsError ''spawn EACCES'' of JsError m \<Rightarrow> m
                       | JsOther \<Rightarrow> ''Unknown error'')\<rparr>,
       ?denied\<lparr>date_ticks := date_ticks ?denied + 2,
         probes := probes (snd (resolve_terminal no_options ?denied)),
         spawned := spawned ?denied @ [kitty_call False]\<rparr>)"
  proof (rule launch_spawn_throws [OF sample_terminal(1) sample_argv(1) [OF cmd] sample_cwd(1)])
    show "kitty_call False = \<lparr>sp_file = ''kitty'', sp_args = [''sh'', ''-c'', ''htop''],
        sp_cwd = ''/home/user'', sp_detached = (waitForExit no_options \<noteq> Some True),
        sp_stdio = (if waitForExit no_options = Some True then ''inherit'' else ''ignore'')\<rparr>"
      by (simp add: kitty_call_def no_options_def)
    show "spawn_os ?denied (kitty_call False) = SpawnThrows (JsError ''spawn EACCES'')"
      by (simp add: host_fields)
  qed
  let ?missing = "host kitty_only (\<lambda>c. Spawned [Error ''spawn kitty ENOENT''])"
  have listened: "launch htop wait_options ?missing =
      handle_events (tid htop) (date_clock ?missing (date_ticks ?missing))
        [Error ''spawn kitty ENOENT''] Pending
        (?missing\<lparr>date_ticks := date_ticks ?missing + 1,
           probes := probes (snd (resolve_terminal wait_options ?missing)),
           spawned := spawned ?missing @ [kitty_call True]\<rparr>)"
  proof (rule launch_attached_path [OF sample_terminal(2) sample_argv(2) [OF cmd] sample_cwd(2)])
    show "kitty_call True = \<lparr>sp_file = ''kitty'', sp_args = [''sh'', ''-c'', ''htop''],
        sp_cwd = ''/home/user'', sp_detached = False, sp_stdio = ''inherit''\<rparr>"
      by (simp add: kitty_call_def)
    show "spawn_os ?missing (kitty_call True) = Spawned [Error ''spawn kitty ENOENT'']"
      by (simp add: host_fields)
    show "waitForExit wait_options = Some True"
      by (simp add: wait_options_def)
  qed
  have a: "fst (launch htop no_options (host no_emulator (\<lambda>c. Spawned []))) =
     Resolved \<lparr>success = False, exitCode = None, duration = None,
       error = Some no_terminal_message\<rparr>"
    unfolding none by simp
  have b: "db (snd (launch htop no_options (host no_emulator (\<lambda>c. Spawned [])))) = registry0"
    unfolding none by (simp add: host_fields)
  have c: "fst (launch htop no_options ?denied) =
     Resolved \<lparr>success = False, exitCode = None, duration = Some 10,
       error = Some ''spawn EACCES''\<rparr>"
    unfolding thrown by (simp add: host_fields)
  have d: "db (snd (launch htop no_options ?denied)) = registry0"
    unfolding thrown by (simp add: host_fields)
  have e: "launch_history registry0 = []"
    "tuis registry0 1 = Some \<lparr>launch_count = 4, last_launched_at = None\<rparr>"
    by (simp_all add: registry0_def)
  have f: "launch_history (db (snd (launch htop wait_options ?missing))) =
       [\<lparr>row_id = 1, row_tui_id = 1, row_launched_at = 500, row_exit_code = None,
         row_duration_ms = Some 10, row_error_message = Some ''spawn kitty ENOENT''\<rparr>]"
    unfolding listened
    by (simp add: Let_def date_now_def on_error_def recordLaunch_def addLaunchHistory_def
        num_or_null_def str_or_null_def host_fields registry0_def htop_def)
  have g: "tuis (db (snd (launch htop wait_options ?missing))) 1 =
       Some \<lparr>launch_count = 5, last_launched_at = Some 501\<rparr>"
    unfolding listened
    by (simp add: Let_def date_now_def on_error_def recordLaunch_def addLaunchHistory_def
        num_or_null_def str_or_null_def host_fields registry0_def htop_def)
  from a b c d e f g show ?thesis by blast
qed

text \<open>
  The paths that reach the child do record. Take a launch that made its spawn call and
  got a child back, detached, or attached with a child that emits exactly one exit or
  error event, on an open store that holds the target's row. Then one outcome is
  returned, one row is appended to \<open>launch_history\<close> for that target, the target's
  \<open>launch_count\<close> grows by one and its \<open>last_launched_at\<close> becomes the timestamp
  of the update.
\<close>

theorem launch_records_once:
  assumes "spawned (snd (launch tui opts w)) = spawned w @ [call]"
    and "spawn_os w call = Spawned evs"
    and "waitForExit opts = Some True \<longrightarrow> length evs = 1"
    and "\<not> closed (db w)" and "tid tui = Some i" and "tuis (db w) i = Some r"
  shows "\<exists>res row. fst (launch tui opts w) = Resolved res
    \<and> launch_history (db (snd (launch tui opts w))) = launch_history (db w) @ [row]
    \<and> row_tui_id row = i
    \<and> tuis (db (snd (launch tui opts w))) =
        (tuis (db w))(i \<mapsto> r\<lparr>launch_count := launch_count r + 1,
           last_launched_at := Some (sql_clock (db w) (sql_ticks (db w) + 1))\<rparr>)"
proof -
  obtain tm prog argv dir where
    h: "fst (resolve_terminal opts w) = Some tm"
       "buildLaunchCommand tm (command tui)
          (case args opts of None \<Rightarrow> [] | Some as \<Rightarrow> as) = prog # argv"
       "resolve_cwd opts w = Inr dir"
    and call: "call = \<lparr>sp_file = prog, sp_args = argv, sp_cwd = dir,
         sp_detached = (waitForExit opts \<noteq> Some True),
         sp_stdio = (if waitForExit opts = Some True then ''inherit'' else ''ignore'')\<rparr>"
    using launch_spawn_log [OF assms(1)] by blast
  show ?thesis
  proof (cases "waitForExit opts = Some True")
    case False
    from call False have call': "call = \<lparr>sp_file = prog, sp_args = argv, sp_cwd = dir,
         sp_detached = True, sp_stdio = ''ignore''\<rparr>" by simp
    let ?W = "w\<lparr>date_ticks := date_ticks w + 2, probes := probes (snd (resolve_terminal opts w)),
           spawned := spawned w @ [call]\<rparr>"
    have "\<not> closed (db ?W)" "tuis (db ?W) i = Some r" using assms(4,6) by simp_all
    from recordLaunch_stored [OF this] show ?thesis
      unfolding launch_detached_path [OF h call' assms(2) False] assms(5)
      by simp
  next
    case True
    from call True have call': "call = \<lparr>sp_file = prog, sp_args = argv, sp_cwd = dir,
         sp_detached = False, sp_stdio = ''inherit''\<rparr>" by simp
    from assms(3) True obtain ev where ev: "evs = [ev]"
      by (cases evs) auto
    let ?W = "w\<lparr>date_ticks := date_ticks w + 1, probes := probes (snd (resolve_terminal opts w)),
           spawned := spawned w @ [call], date_ticks := date_ticks w + 1 + 1\<rparr>"
    have "\<not> closed (db ?W)" "tuis (db ?W) i = Some r" using assms(4,6) by simp_all
    from recordLaunch_stored [OF this] show ?thesis
      unfolding launch_attached_path [OF h call' assms(2) True] assms(5) ev
      by (simp add: Let_def date_now_def)
  qed
qed

theorem launch_records_once_witness:
  "\<exists>res row.
      fst (launch htop no_options (host kitty_only (\<lambda>c. Spawned [Exit (Some 0)]))) = Resolved res
    \<and> launch_history (db (snd (launch htop no_options
          (host kitty_only (\<lambda>c. Spawned [Exit (Some 0)]))))) = [row]
    \<and> row_tui_id row = 1
    \<and> tuis (db (snd (launch htop no_options
          (host kitty_only (\<lambda>c. Spawned [Exit (Some 0)]))))) 1 =
        Some \<lparr>launch_count = 5, last_launched_at = Some 501\<rparr>"
proof -
  let ?w = "host kitty_only (\<lambda>c. Spawned [Exit (Some 0)])"
  have cmd: "command htop = ''htop''" by (simp add: htop_def)
  have log: "spawned (snd (launch htop no_options ?w)) = spawned ?w @ [kitty_call False]"
    unfolding sample_detached [OF cmd refl] by (simp add: recordLaunch_host host_fields)
  have os: "spawn_os ?w (kitty_call False) = Spawned [Exit (Some 0)]"
    by (simp add: host_fields)
  have mode: "waitForExit no_options = Some True \<longrightarrow> length [Exit (Some 0)] = 1"
    by simp
  have store: "\<not> closed (db ?w)" "tid htop = Some 1"
    "tuis (db ?w) 1 = Some \<lparr>launch_count = 4, last_launched_at = None\<rparr>"
    by (simp_all add: host_fields registry0_def htop_def)
  from launch_records_once [OF log os mode store]
  show ?thesis by (auto simp: host_fields registry0_def)
qed

text \<open>
  A store that throws is the exception \<open>recordLaunch\<close> makes on purpose: for a target
  whose row is no longer in \<open>tuis\<close> the \<open>INSERT\<close> fails on the foreign key, the
  error is caught and printed, and the outcome is returned with nothing recorded.
\<close>

theorem launch_store_failure_swallowed:
  "fst (launch \<lparr>tid = Some 2, command = ''htop''\<rparr> no_options
         (host kitty_only (\<lambda>c. Spawned [Exit (Some 0)]))) =
     Resolved \<lparr>success = True, exitCode = None, duration = Some 20, error = None\<rparr>
   \<and> db (snd (launch \<lparr>tid = Some 2, command = ''htop''\<rparr> no_options
         (host kitty_only (\<lambda>c. Spawned [Exit (Some 0)])))) = registry0
   \<and> launch_history registry0 = []
   \<and> console_errors (snd (launch \<lparr>tid = Some 2, command = ''htop''\<rparr> no_options
         (host kitty_only (\<lambda>c. Spawned [Exit (Some 0)])))) =
       [JsError ''FOREIGN KEY constraint failed'']"
proof -
  have "launch \<lparr>tid = Some 2, command = ''htop''\<rparr> no_options
         (host kitty_only (\<lambda>c. Spawned [Exit (Some 0)])) = 
    (Resolved \<lparr>success = True, exitCode = None, duration = Some 20, error = None\<rparr>,
     (recordLaunch (Some 2)
        \<lparr>success = True, exitCode = None, duration = Some 10, error = None\<rparr>
        ((host kitty_only (\<lambda>c. Spawned [Exit (Some 0)]))\<lparr>date_ticks := 2,
           probes := probes (snd (resolve_terminal no_options (host kitty_only (\<lambda>c. Spawned [Exit (Some 0)])))),
           spawned := [kitty_call False]\<rparr>))
      \<lparr>date_ticks := 3\<rparr>)"
    using sample_detached [of "\<lparr>tid = Some 2, command = ''htop''\<rparr>" "\<lambda>c. Spawned [Exit (Some 0)]"]
    by simp
  then show ?thesis
    by (simp add: recordLaunch_def addLaunchHistory_def host_def registry0_def)
qed

section \<open>No exception leaves launch\<close>




end
